theory Spec2Isabelle
  imports Main "HOL-Library.Word"
begin

unbundle bit_operations_syntax

chapter \<open>The scheduling and caching core of the miloco inference engine\<close>

text \<open>
  A shallow embedding of the parts of \<^verbatim>\<open>miloco_ai_engine/core\<close> that the engine's
  specification makes claims about: the prefix hashes of a chunk list
  (\<^verbatim>\<open>utils/chunk-hash.cpp\<close>), the prompt cropping (\<^verbatim>\<open>utils/mico-dialog-util.h\<close>), the
  closure of the memory scheduler's copy (\<^verbatim>\<open>utils/llama-memory-scheduling.cpp\<close>), the two
  caches (\<^verbatim>\<open>cache_manager/\<close>) and the per-request loop of the batch scheduler
  (\<^verbatim>\<open>batch_scheduling/\<close>).

  C++ integers: \<^verbatim>\<open>uint64_t\<close> and \<^verbatim>\<open>size_t\<close> are \<open>64 word\<close>, \<^verbatim>\<open>llama_token\<close> (an
  \<^verbatim>\<open>int32_t\<close>) is \<open>32 word\<close> read with \<open>sint\<close>. The runtime underneath (llama.cpp and its
  multimodal helper) is outside the repository: what it returns is a parameter of the
  functions below.
\<close>

section \<open>Input chunks\<close>

type_synonym u64 = "64 word"
type_synonym llama_token = "32 word"

text \<open>
  An \<^verbatim>\<open>mtmd_input_chunk\<close> as the engine reads it through the helper's accessors: its type,
  the tokens of a text chunk, the id and the token count of an image chunk. The helper
  library has a third type, audio, for which the engine only ever asks the token count.
  The elements of an \<^verbatim>\<open>mtmd::input_chunks\<close> are addresses of vector elements and an image
  chunk is created together with its image tokens, so the null checks on these two pointers
  have no branch here.
\<close>

datatype mtmd_input_chunk =
    TextChunk "llama_token list"
  | ImageChunk string nat
  | AudioChunk nat

fun mtmd_input_chunk_get_n_tokens :: "mtmd_input_chunk \<Rightarrow> nat" where
  "mtmd_input_chunk_get_n_tokens (TextChunk ts) = length ts"
| "mtmd_input_chunk_get_n_tokens (ImageChunk ident n) = n"
| "mtmd_input_chunk_get_n_tokens (AudioChunk n) = n"

section \<open>Prefix hashes (chunk-hash.cpp)\<close>

text \<open>
  \<^verbatim>\<open>simple_hash\<close>: the accumulator is a \<^verbatim>\<open>uint64_t\<close> that starts at \<^verbatim>\<open>0x811c9dc5\<close>; every
  character is cast to \<^verbatim>\<open>uint64_t\<close>, xor-ed in, and the accumulator is multiplied by
  \<^verbatim>\<open>0x01000193\<close>, modulo \<open>2 ^ 64\<close>. The cast is from \<^verbatim>\<open>char\<close>, which is signed on the
  x86-64 targets of the engine: a byte of 128 or more is sign extended.
\<close>

definition char_to_u64 :: "char \<Rightarrow> u64" where
  "char_to_u64 c = scast (of_char c :: 8 word)"

definition simple_hash :: "string \<Rightarrow> u64" where
  "simple_hash str = foldl (\<lambda>hash c. (hash XOR char_to_u64 c) * 0x01000193) 0x811c9dc5 str"

text \<open>\<^verbatim>\<open>hash_to_hex\<close>: sixteen lower-case hexadecimal digits, zero filled.\<close>

definition hex_digit :: "nat \<Rightarrow> char" where
  "hex_digit d = ''0123456789abcdef'' ! (d mod 16)"

definition hash_to_hex :: "u64 \<Rightarrow> string" where
  "hash_to_hex hash = map (\<lambda>i. hex_digit (unat (drop_bit (4 * i) hash AND 15))) (rev [0..<16])"

text \<open>The decimal output of \<^verbatim>\<open>operator<<\<close> on an \<^verbatim>\<open>int32_t\<close>.\<close>

fun show_nat :: "nat \<Rightarrow> string" where
  "show_nat n = (if n < 10 then [hex_digit n] else show_nat (n div 10) @ [hex_digit (n mod 10)])"

declare show_nat.simps [simp del]

definition show_int :: "int \<Rightarrow> string" where
  "show_int i = (if i < 0 then CHR ''-'' # show_nat (nat (- i)) else show_nat (nat i))"

text \<open>
  \<^verbatim>\<open>get_chunk_description\<close>: every token of a text chunk followed by a comma; \<^verbatim>\<open>IMG:\<close>, the
  image id and a comma for an image chunk; nothing for any other chunk.
\<close>

fun get_chunk_description :: "mtmd_input_chunk \<Rightarrow> string" where
  "get_chunk_description (TextChunk tokens) = concat (map (\<lambda>t. show_int (sint t) @ '','') tokens)"
| "get_chunk_description (ImageChunk ident n) = ''IMG:'' @ ident @ '',''"
| "get_chunk_description (AudioChunk n) = []"

text \<open>
  \<^verbatim>\<open>chunk_hashs\<close>: the loop appends each description to \<^verbatim>\<open>prompt_string\<close> and pushes the
  hash of the string so far. \<open>chunk_hashs_from\<close> is the loop, with \<^verbatim>\<open>prompt_string\<close> as
  its accumulator.
\<close>

fun chunk_hashs_from :: "string \<Rightarrow> mtmd_input_chunk list \<Rightarrow> string list" where
  "chunk_hashs_from prompt_string [] = []"
| "chunk_hashs_from prompt_string (chunk # rest) =
     (let prompt_string' = prompt_string @ get_chunk_description chunk
      in hash_to_hex (simple_hash prompt_string') # chunk_hashs_from prompt_string' rest)"

definition chunk_hashs :: "mtmd_input_chunk list \<Rightarrow> string list" where
  "chunk_hashs input_chunks = chunk_hashs_from [] input_chunks"

text \<open>
  The hash the specification names: 64-bit FNV-1a, over the bytes of the string. It is
  written from the specification's words, to be compared with \<open>simple_hash\<close>.
\<close>

definition spec_fnv1a64 :: "string \<Rightarrow> u64" where
  "spec_fnv1a64 str =
     foldl (\<lambda>hash c. (hash XOR ucast (of_char c :: 8 word)) * 0x100000001b3) 0xcbf29ce484222325 str"

text \<open>The descriptor stream of the chunks up to and including position \<open>i\<close>.\<close>

definition descriptor_stream :: "mtmd_input_chunk list \<Rightarrow> nat \<Rightarrow> string" where
  "descriptor_stream input_chunks i = concat (map get_chunk_description (take (Suc i) input_chunks))"


section \<open>Single-precision products by 0.8\<close>

text \<open>
  Three places of the engine scale an integer by \<^verbatim>\<open>0.8\<close> in single precision: the
  integer is converted to \<^verbatim>\<open>float\<close>, multiplied by the \<^verbatim>\<open>float\<close> nearest to 0.8, which
  is \<open>13421773 / 2 ^ 24\<close>, and the product is converted back to an integer, which
  truncates. Both the conversion to \<^verbatim>\<open>float\<close> and the product round to 24 significant
  bits, ties to even. \<open>round_to_f32 k\<close> is that rounding on a natural number \<open>k\<close>; the
  product of an integer \<open>a\<close> of at most 24 significant bits with \<open>13421773 / 2 ^ 24\<close> is
  \<open>round_to_f32 (a * 13421773) / 2 ^ 24\<close>, since scaling by a power of two is exact.
\<close>

fun bit_length :: "nat \<Rightarrow> nat" where
  "bit_length n = (if n = 0 then 0 else Suc (bit_length (n div 2)))"

declare bit_length.simps [simp del]

definition round_to_f32 :: "nat \<Rightarrow> nat" where
  "round_to_f32 k =
     (let e = bit_length k - 24;
          q = k div 2 ^ e;
          r = k mod 2 ^ e
      in if 2 * r < 2 ^ e then q * 2 ^ e
         else if 2 ^ e < 2 * r then (q + 1) * 2 ^ e
         else (if even q then q else q + 1) * 2 ^ e)"

definition f32_scale_0_8 :: "nat \<Rightarrow> nat" where
  "f32_scale_0_8 n = round_to_f32 (round_to_f32 n * 13421773) div 2 ^ 24"

section \<open>Prompt cropping (mico-dialog-util.h)\<close>


definition total_tokens :: "mtmd_input_chunk list \<Rightarrow> int" where
  "total_tokens chunks = (\<Sum>chunk\<leftarrow>chunks. int (mtmd_input_chunk_get_n_tokens chunk))"



section \<open>The copy closure of the memory scheduler (llama-memory-scheduling.cpp)\<close>

text \<open>
  The closures of \<^verbatim>\<open>LlamaMemoryScheduler\<close> call the runtime's KV memory; a closure is
  modelled by the call it makes, if any. \<^verbatim>\<open>llama_pos\<close> is an \<^verbatim>\<open>int32_t\<close>; positions are
  bounded by the context size, so \<open>max_pos + 1\<close> does not overflow and positions are
  integers here. \<open>max_pos\<close> is what \<^verbatim>\<open>llama_memory_seq_pos_max\<close> returns for the
  destination when the closure runs (\<open>-1\<close> for an empty sequence).
\<close>

datatype kv_call =
    Seq_rm nat int int
  | Seq_cp nat nat int int

definition clear_mem_task :: "nat \<Rightarrow> int \<Rightarrow> int \<Rightarrow> kv_call" where
  "clear_mem_task seq_id p0 p1 = Seq_rm seq_id p0 p1"

definition cache_mem_task :: "int \<Rightarrow> nat \<Rightarrow> nat \<Rightarrow> int \<Rightarrow> int \<Rightarrow> kv_call option" where
  "cache_mem_task max_pos src_seq_id dest_seq_id p0 p1 =
     (let p_0 = max p0 (max_pos + 1)
      in if p_0 \<le> p1 \<or> p1 = - 1 then Some (Seq_cp src_seq_id dest_seq_id p_0 p1) else None)"

text \<open>
  The range \<open>[p0', p1)\<close> of the specification is not empty: \<open>p1 = -1\<close> stands for no
  upper bound. Written from the specification's words.
\<close>

definition spec_range_nonempty :: "int \<Rightarrow> int \<Rightarrow> bool" where
  "spec_range_nonempty p0' p1 = (p1 = - 1 \<or> p0' < p1)"

section \<open>The image embedding cache (image-embedding-cache.cpp)\<close>

text \<open>
  The member functions of the two caches have the same names; here those of
  \<^verbatim>\<open>ImageEmbeddingCache\<close> carry the prefix \<open>image_cache_\<close> and those of
  \<^verbatim>\<open>ChunkInferCache\<close> the prefix \<open>chunk_cache_\<close>.

  The state of an \<^verbatim>\<open>ImageEmbeddingCache\<close>. An embedding is a \<^verbatim>\<open>std::vector<float>\<close>: a list
  of 32-bit values, of which only the number matters here. \<^verbatim>\<open>size_t\<close> counters are 64-bit
  words. A time point of the steady clock is a number of nanoseconds.
\<close>

type_synonym embedding = "32 word list"

record CacheStats =
  total_entries :: u64
  hits :: u64
  misses :: u64
  total_memory_usage :: u64

record ImageEmbeddingCache =
  image_wait_set :: "string set"
  image_stored_map :: "string \<rightharpoonup> embedding"
  embed_order :: "string list"
  stats :: CacheStats
  last_maintenance :: int
  max_memory_usage :: u64
  max_num_entries :: u64
  maintenance_interval :: int

text \<open>
  The constructor: empty containers, zero statistics, the clock's reading, and the
  member initialiser \<^verbatim>\<open>maintenance_interval_{5000}\<close>, which the header comments as
  milliseconds.
\<close>

definition new_ImageEmbeddingCache :: "u64 \<Rightarrow> u64 \<Rightarrow> int \<Rightarrow> ImageEmbeddingCache" where
  "new_ImageEmbeddingCache max_entries max_mem now =
     \<lparr>image_wait_set = {}, image_stored_map = Map.empty, embed_order = [],
      stats = \<lparr>total_entries = 0, hits = 0, misses = 0, total_memory_usage = 0\<rparr>,
      last_maintenance = now, max_memory_usage = max_mem, max_num_entries = max_entries,
      maintenance_interval = 5000\<rparr>"

fun image_hash :: "mtmd_input_chunk \<Rightarrow> string" where
  "image_hash (ImageChunk ident n) = ident"
| "image_hash chunk = []"

definition image_cache_prepare :: "mtmd_input_chunk \<Rightarrow> ImageEmbeddingCache \<Rightarrow> string \<times> ImageEmbeddingCache" where
  "image_cache_prepare chunk cache =
     (let res = image_hash chunk
      in if res = [] then (res, cache)
         else if res \<in> image_wait_set cache then ([], cache)
         else if res \<in> dom (image_stored_map cache) then ([], cache)
         else (res, cache\<lparr>image_wait_set := insert res (image_wait_set cache)\<rparr>))"

text \<open>
  \<^verbatim>\<open>duration_cast<microseconds>\<close> of a difference of time points: the nanoseconds divided
  by 1000, truncated towards zero.
\<close>

definition duration_cast_microseconds :: "int \<Rightarrow> int" where
  "duration_cast_microseconds d = (if d < 0 then - ((- d) div 1000) else d div 1000)"

text \<open>
  The two targets of \<^verbatim>\<open>maintain\<close> are single-precision products stored in an
  \<^verbatim>\<open>int32_t\<close>. The conversion is defined only below \<open>2 ^ 31\<close>: \<open>None\<close> stands for the
  undefined conversion. The byte target is \<^verbatim>\<open>max_memory_usage_ * 0.8f * 1024 * 1024\<close>, where
  the two products by 1024 are exact.
\<close>

definition float_to_int32 :: "nat \<Rightarrow> int option" where
  "float_to_int32 v = (if v < 2 ^ 31 then Some (int v) else None)"

definition f32_scale_0_8_mb :: "nat \<Rightarrow> nat" where
  "f32_scale_0_8_mb m = round_to_f32 (round_to_f32 m * 13421773) div 2 ^ 4"

text \<open>
  The eviction loop of \<^verbatim>\<open>maintain\<close>: while one of the two counts is above its target and
  the order list is not empty, the key at the front of the order list leaves the stored
  map and the list, and the counts go down by one entry and by the bytes of its embedding.
\<close>

definition byte_size_of :: "embedding option \<Rightarrow> u64" where
  "byte_size_of v = (case v of None \<Rightarrow> 0 | Some e \<Rightarrow> of_nat (length e) * 4)"

fun evict_loop ::
  "u64 \<Rightarrow> u64 \<Rightarrow> string list \<Rightarrow> (string \<rightharpoonup> embedding) \<Rightarrow> u64 \<Rightarrow> u64 \<Rightarrow>
   string list \<times> (string \<rightharpoonup> embedding) \<times> u64 \<times> u64" where
  "evict_loop target_entries target_memory_usage [] stored n_entries n_bytes =
     ([], stored, n_entries, n_bytes)"
| "evict_loop target_entries target_memory_usage (key # order) stored n_entries n_bytes =
     (if target_entries < n_entries \<or> target_memory_usage < n_bytes
      then evict_loop target_entries target_memory_usage order (stored(key := None))
             (n_entries - 1) (n_bytes - byte_size_of (stored key))
      else (key # order, stored, n_entries, n_bytes))"

definition need_maintain :: "int \<Rightarrow> ImageEmbeddingCache \<Rightarrow> bool" where
  "need_maintain now cache =
     (let time_since_maintenance = duration_cast_microseconds (now - last_maintenance cache);
          max_memory_byte = max_memory_usage cache * 1024 * 1024
      in \<not> time_since_maintenance < maintenance_interval cache \<and>
         \<not> (total_entries (stats cache) < max_num_entries cache \<and>
            total_memory_usage (stats cache) < max_memory_byte))"

definition image_cache_maintain :: "int \<Rightarrow> ImageEmbeddingCache \<Rightarrow> ImageEmbeddingCache option" where
  "image_cache_maintain now cache =
     (if \<not> need_maintain now cache then Some cache
      else case float_to_int32 (f32_scale_0_8 (unat (max_num_entries cache))) of
             None \<Rightarrow> None
           | Some target_entries \<Rightarrow>
               (case float_to_int32 (f32_scale_0_8_mb (unat (max_memory_usage cache))) of
                  None \<Rightarrow> None
                | Some target_memory_usage \<Rightarrow>
                    (case evict_loop (of_int target_entries) (of_int target_memory_usage)
                            (embed_order cache) (image_stored_map cache)
                            (total_entries (stats cache)) (total_memory_usage (stats cache)) of
                       (order, stored, n_entries, n_bytes) \<Rightarrow>
                         Some (cache\<lparr>image_stored_map := stored, embed_order := order,
                                 stats := (stats cache)\<lparr>total_memory_usage := n_bytes,
                                            total_entries := of_nat (length order)\<rparr>,
                                 last_maintenance := now\<rparr>))))"

text \<open>
  \<^verbatim>\<open>store\<close>. \<^verbatim>\<open>std::find\<close> and \<^verbatim>\<open>erase\<close> take the first occurrence of the key out of the
  order list, which is what \<open>remove1\<close> does.
\<close>

definition image_cache_store ::
  "int \<Rightarrow> mtmd_input_chunk \<Rightarrow> embedding \<Rightarrow> ImageEmbeddingCache \<Rightarrow> (bool \<times> ImageEmbeddingCache) option" where
  "image_cache_store now chunk embeddings cache =
     (let key = image_hash chunk
      in if key = [] then Some (False, cache)
         else case image_cache_maintain now cache of
                None \<Rightarrow> None
              | Some cache1 \<Rightarrow>
                  Some (True,
                    cache1\<lparr>image_stored_map := (image_stored_map cache1)(key \<mapsto> embeddings),
                           image_wait_set := image_wait_set cache1 - {key},
                           embed_order := remove1 key (embed_order cache1) @ [key],
                           stats := (stats cache1)\<lparr>
                             total_entries := total_entries (stats cache1) + 1,
                             total_memory_usage :=
                               total_memory_usage (stats cache1) + of_nat (length embeddings) * 4\<rparr>\<rparr>))"

definition update_stats :: "bool \<Rightarrow> ImageEmbeddingCache \<Rightarrow> ImageEmbeddingCache" where
  "update_stats hit cache =
     (if hit then cache\<lparr>stats := (stats cache)\<lparr>hits := hits (stats cache) + 1\<rparr>\<rparr>
      else cache\<lparr>stats := (stats cache)\<lparr>misses := misses (stats cache) + 1\<rparr>\<rparr>)"

definition image_cache_lookup :: "mtmd_input_chunk \<Rightarrow> ImageEmbeddingCache \<Rightarrow> embedding option \<times> ImageEmbeddingCache" where
  "image_cache_lookup chunk cache =
     (let key = image_hash chunk
      in if key = [] then (None, cache)
         else case image_stored_map cache key of
                Some e \<Rightarrow>
                  (Some e,
                   update_stats True
                     (if key \<in> set (embed_order cache)
                      then cache\<lparr>embed_order := remove1 key (embed_order cache) @ [key]\<rparr>
                      else cache))
              | None \<Rightarrow> (None, update_stats False cache))"

definition image_cache_waiting :: "mtmd_input_chunk \<Rightarrow> ImageEmbeddingCache \<Rightarrow> bool" where
  "image_cache_waiting chunk cache = (image_hash chunk \<noteq> [] \<and> image_hash chunk \<in> image_wait_set cache)"

definition image_cache_storing :: "mtmd_input_chunk \<Rightarrow> ImageEmbeddingCache \<Rightarrow> bool" where
  "image_cache_storing chunk cache = (image_hash chunk \<noteq> [] \<and> image_hash chunk \<in> dom (image_stored_map cache))"

section \<open>The encoder scheduler (encoder-scheduler.cpp)\<close>

text \<open>
  What the vision runtime does for one chunk is a parameter: the return value of
  \<^verbatim>\<open>mtmd_encode_chunk\<close> and the buffer \<^verbatim>\<open>mtmd_get_output_embd\<close> points to afterwards
  (\<open>None\<close> for a null pointer). \<open>n_embd\<close> is \<^verbatim>\<open>llama_model_n_embd\<close> of the model. The
  runtime's buffer holds at least the floats the task copies.
\<close>

record encode_result =
  ret :: int
  output_embd :: "embedding option"

definition encoder_task ::
  "int \<Rightarrow> nat \<Rightarrow> encode_result \<Rightarrow> mtmd_input_chunk \<Rightarrow> ImageEmbeddingCache \<Rightarrow> ImageEmbeddingCache option" where
  "encoder_task now n_embd_model res chunk cache =
     (case chunk of
        ImageChunk ident n \<Rightarrow>
          if ret res \<noteq> 0 then Some cache
          else (case output_embd res of
                  None \<Rightarrow> Some cache
                | Some embd \<Rightarrow>
                    let n_embd = mtmd_input_chunk_get_n_tokens chunk * n_embd_model
                    in if 0 < n_embd
                       then map_option snd (image_cache_store now chunk (take n_embd embd) cache)
                       else Some cache)
      | _ \<Rightarrow> Some cache)"

text \<open>
  \<^verbatim>\<open>submit_encoder_task\<close> reserves the key with \<^verbatim>\<open>prepare\<close> and queues the task unless the
  key comes back empty: the result is whether a task was queued, and the cache.
\<close>

definition submit_encoder_task :: "mtmd_input_chunk \<Rightarrow> ImageEmbeddingCache \<Rightarrow> bool \<times> ImageEmbeddingCache" where
  "submit_encoder_task chunk cache =
     (case image_cache_prepare chunk cache of (key, cache') \<Rightarrow> (key \<noteq> [], cache'))"

text \<open>
  \<^verbatim>\<open>wait_for_result\<close> waits on the condition \<^verbatim>\<open>!waiting(chunk)\<close> and then returns the
  lookup. On a given state of the cache it returns when the condition holds; \<open>None\<close>
  stands for a thread that stays blocked on this state.
\<close>

definition wait_for_result ::
  "mtmd_input_chunk \<Rightarrow> ImageEmbeddingCache \<Rightarrow> (embedding option \<times> ImageEmbeddingCache) option" where
  "wait_for_result chunk cache = (if image_cache_waiting chunk cache then None else Some (image_cache_lookup chunk cache))"

text \<open>
  The interval of the specification: the cache's \<^verbatim>\<open>maintenance_interval_\<close>, read in
  milliseconds as the header comments it (5000 ms, the specification's 5 seconds), has
  elapsed since the last maintenance. Written from the specification's words; time points
  are in nanoseconds.
\<close>

definition spec_interval_elapsed :: "int \<Rightarrow> ImageEmbeddingCache \<Rightarrow> bool" where
  "spec_interval_elapsed now cache =
     (maintenance_interval cache * 1000000 \<le> now - last_maintenance cache)"

text \<open>
  A cache for at most two entries and 1024 MB, created at time 0, into which the
  embeddings of the images \<^verbatim>\<open>a\<close> and \<^verbatim>\<open>b\<close> (two floats each) are stored at time 0.
\<close>

definition cache_with_two_images :: ImageEmbeddingCache where
  "cache_with_two_images =
     snd (the (image_cache_store 0 (ImageChunk ''b'' 1) [0, 0]
       (snd (the (image_cache_store 0 (ImageChunk ''a'' 1) [0, 0]
          (new_ImageEmbeddingCache 2 1024 0))))))"

section \<open>The chunk inference cache (chunk-infer-cache.cpp)\<close>

text \<open>
  A \<^verbatim>\<open>CacheEntry\<close> is shared between the hash map and the lists of the cache slots
  through \<^verbatim>\<open>std::shared_ptr\<close>, its \<^verbatim>\<open>reference_count\<close> is updated in place, and
  entries are compared by address. So the entries live in a store, \<open>entries\<close>, from
  addresses to entries; \<open>n_entries\<close> is the next unused address, the map and the lists
  hold addresses. \<^verbatim>\<open>reference_count\<close> is an \<^verbatim>\<open>int32_t\<close> that only counts list positions:
  an integer here, as are the positions.

  \<^verbatim>\<open>use_seq_mem_\<close> is an \<^verbatim>\<open>unordered_map\<close> from the slot's sequence id to its
  \<^verbatim>\<open>SeqEntryList\<close>, filled by the constructor and never resized: it is the list of its
  values in the order in which the map iterates, each of which carries its key as
  \<open>cache_seq_id\<close>. The closures handed to the memory scheduler are collected in
  \<open>submitted\<close>.
\<close>

record CacheEntry =
  prompt_hash :: string
  pos_begin :: int
  pos_end :: int
  last_token :: llama_token
  reference_count :: int

record SeqEntryList =
  cache_seq_id :: nat
  last_pos :: int
  seq_entries :: "nat list"
  last_access :: int

datatype mem_task =
    Clear_mem nat int int
  | Cache_mem nat nat int int

record ChunkInferCache =
  entries :: "nat \<Rightarrow> CacheEntry"
  n_entries :: nat
  cache_wait_set :: "string set"
  cache_map :: "string \<rightharpoonup> nat"
  use_seq_mem :: "SeqEntryList list"
  submitted :: "mem_task list"

text \<open>
  The constructors. A default \<^verbatim>\<open>CacheEntry\<close> has count 0 and \<open>-1\<close> elsewhere; a
  \<^verbatim>\<open>SeqEntryList\<close> starts empty at position 0, with the clock's epoch as last access.
  The cache takes the slots \<open>seq_ids\<close>, which the constructor inserts as
  \<open>seq_max - max_cache_seq, ..., seq_max - 1\<close> and the map iterates in its own order.
\<close>

definition new_CacheEntry :: CacheEntry where
  "new_CacheEntry =
     \<lparr>prompt_hash = [], pos_begin = - 1, pos_end = - 1, last_token = - 1, reference_count = 0\<rparr>"

definition new_SeqEntryList :: "nat \<Rightarrow> SeqEntryList" where
  "new_SeqEntryList seq_id = \<lparr>cache_seq_id = seq_id, last_pos = 0, seq_entries = [], last_access = 0\<rparr>"



definition unprepared :: "string \<Rightarrow> ChunkInferCache \<Rightarrow> ChunkInferCache" where
  "unprepared chunk_hash cache = cache\<lparr>cache_wait_set := cache_wait_set cache - {chunk_hash}\<rparr>"

definition chunk_cache_waiting :: "string \<Rightarrow> ChunkInferCache \<Rightarrow> bool" where
  "chunk_cache_waiting chunk_hash cache = (chunk_hash \<in> cache_wait_set cache)"

definition chunk_cache_storing :: "string \<Rightarrow> ChunkInferCache \<Rightarrow> bool" where
  "chunk_cache_storing chunk_hash cache = (chunk_hash \<in> dom (cache_map cache))"

text \<open>
  \<^verbatim>\<open>block_waiting_and_prepare\<close> waits while the hash is in the wait set; \<open>None\<close> stands
  for a thread that stays blocked on this state.
\<close>

definition block_waiting_and_prepare :: "string \<Rightarrow> ChunkInferCache \<Rightarrow> ChunkInferCache option" where
  "block_waiting_and_prepare chunk_hash cache =
     (if chunk_hash \<in> cache_wait_set cache then None
      else if chunk_hash \<notin> dom (cache_map cache)
           then Some (cache\<lparr>cache_wait_set := insert chunk_hash (cache_wait_set cache)\<rparr>)
           else Some cache)"

text \<open>
  \<^verbatim>\<open>maintain\<close>. The loop over a slot's entries decrements each count in place and
  collects the hashes of the entries whose count is no longer positive.
\<close>

fun release_entries ::
  "nat list \<Rightarrow> (nat \<Rightarrow> CacheEntry) \<Rightarrow> string list \<Rightarrow> (nat \<Rightarrow> CacheEntry) \<times> string list" where
  "release_entries [] heap to_delete_keys = (heap, to_delete_keys)"
| "release_entries (a # rest) heap to_delete_keys =
     (let entry = (heap a)\<lparr>reference_count := reference_count (heap a) - 1\<rparr>
      in release_entries rest (heap(a := entry))
           (if reference_count entry \<le> 0 then to_delete_keys @ [prompt_hash entry]
            else to_delete_keys))"

text \<open>
  One round of the loop over \<^verbatim>\<open>to_delete\<close>: the slot with this key (keys are unique in
  the map) releases its entries, is emptied, and a clear of its sequence is submitted.
\<close>

definition evict_seq :: "nat \<Rightarrow> ChunkInferCache \<times> string list \<Rightarrow> ChunkInferCache \<times> string list" where
  "evict_seq seq_id state =
     (case state of (cache, to_delete_keys) \<Rightarrow>
        (case find (\<lambda>s. cache_seq_id s = seq_id) (use_seq_mem cache) of
           None \<Rightarrow> (cache, to_delete_keys)
         | Some seq \<Rightarrow>
             (case release_entries (seq_entries seq) (entries cache) to_delete_keys of
                (heap, keys) \<Rightarrow>
                  (cache\<lparr>entries := heap,
                         use_seq_mem :=
                           map (\<lambda>s. if cache_seq_id s = seq_id
                                     then s\<lparr>seq_entries := [], last_pos := 0\<rparr> else s)
                             (use_seq_mem cache),
                         submitted := submitted cache @ [Clear_mem seq_id (- 1) (- 1)]\<rparr>,
                   keys))))"

text \<open>
  \<^verbatim>\<open>std::sort\<close> leaves the order of slots with equal \<^verbatim>\<open>last_access\<close> open; the model
  takes the stable order. The loop bound \<^verbatim>\<open>i < delete_num\<close> compares a \<^verbatim>\<open>size_t\<close> with an
  \<^verbatim>\<open>int32_t\<close>, so a negative \<^verbatim>\<open>delete_num\<close> would bound nothing.
\<close>

definition chunk_cache_maintain :: "ChunkInferCache \<Rightarrow> ChunkInferCache" where
  "chunk_cache_maintain cache =
     (let used_seq_num = length (filter (\<lambda>s. seq_entries s \<noteq> []) (use_seq_mem cache));
          max_seq_num = f32_scale_0_8 (length (use_seq_mem cache));
          delete_num = int used_seq_num - int max_seq_num
      in if used_seq_num < length (use_seq_mem cache) then cache
         else let sorted_seqs = sort_key last_access (filter (\<lambda>s. seq_entries s \<noteq> []) (use_seq_mem cache));
                  to_delete = map cache_seq_id
                    (take (if delete_num < 0 then length sorted_seqs else nat delete_num) sorted_seqs)
              in case fold evict_seq to_delete (cache, []) of
                   (cache', to_delete_keys) \<Rightarrow>
                     cache'\<lparr>cache_map := foldl (\<lambda>m key. m(key := None)) (cache_map cache') to_delete_keys\<rparr>)"

text \<open>
  The two selection loops of \<^verbatim>\<open>store\<close> run over all slots without a break, so the last
  slot that satisfies the test is taken: \<open>last_index_where\<close> is its position.
\<close>

definition last_index_where :: "('a \<Rightarrow> bool) \<Rightarrow> 'a list \<Rightarrow> nat option" where
  "last_index_where P xs =
     (case filter (\<lambda>i. P (xs ! i)) [0..<length xs] of [] \<Rightarrow> None | i # rest \<Rightarrow> Some (last (i # rest)))"

definition pre_chunk_indexs :: "string list \<Rightarrow> nat \<Rightarrow> ChunkInferCache \<Rightarrow> nat list" where
  "pre_chunk_indexs hashs chunk_id cache =
     filter (\<lambda>i. cache_map cache (hashs ! i) \<noteq> None) [0..<Suc chunk_id]"

definition pre_entries :: "string list \<Rightarrow> nat \<Rightarrow> ChunkInferCache \<Rightarrow> nat list" where
  "pre_entries hashs chunk_id cache =
     map (\<lambda>i. the (cache_map cache (hashs ! i))) (pre_chunk_indexs hashs chunk_id cache)"

definition select_target :: "nat list \<Rightarrow> ChunkInferCache \<Rightarrow> nat option" where
  "select_target pre cache =
     (case (if pre \<noteq> []
            then last_index_where (\<lambda>s. seq_entries s \<noteq> [] \<and> last (seq_entries s) = last pre)
                   (use_seq_mem cache)
            else None) of
        Some t \<Rightarrow> Some t
      | None \<Rightarrow> last_index_where (\<lambda>s. seq_entries s = []) (use_seq_mem cache))"

definition add_references :: "nat list \<Rightarrow> (nat \<Rightarrow> CacheEntry) \<Rightarrow> (nat \<Rightarrow> CacheEntry)" where
  "add_references pre heap =
     foldl (\<lambda>h a. h(a := (h a)\<lparr>reference_count := reference_count (h a) + 1\<rparr>)) heap pre"

text \<open>
  \<^verbatim>\<open>store\<close>; its vector \<^verbatim>\<open>chunk_hashs\<close> is \<open>hashs\<close> here. \<^verbatim>\<open>store\<close> first calls
  \<^verbatim>\<open>maintain\<close>, then takes the cache lock, takes the hash out of the wait set and does
  the rest: \<open>store_locked\<close> is the part after the hash has left the wait set. \<open>None\<close>
  stands for the read of \<^verbatim>\<open>chunk_hashs[chunk_id]\<close> outside the vector. \<open>now\<close> is the
  clock's reading for the slot's \<^verbatim>\<open>last_access\<close>. \<^verbatim>\<open>serialize_kv_cache_state\<close> submits the
  copy and returns true.
\<close>

definition store_locked ::
  "string list \<Rightarrow> nat \<Rightarrow> nat \<Rightarrow> llama_token \<Rightarrow> int \<Rightarrow> int \<Rightarrow> ChunkInferCache \<Rightarrow>
   bool \<times> ChunkInferCache" where
  "store_locked hashs chunk_id seq_id last_tok n_past now cache =
     (let pre = pre_entries hashs chunk_id cache;
          idx = pre_chunk_indexs hashs chunk_id cache
      in if idx \<noteq> [] \<and> last idx = chunk_id then (True, cache)
         else case select_target pre cache of
                None \<Rightarrow> (False, cache)
              | Some t \<Rightarrow>
                  let target_seq = use_seq_mem cache ! t;
                      addr = n_entries cache;
                      entry = \<lparr>prompt_hash = hashs ! chunk_id,
                               pos_begin = (if pre = [] then 0 else pos_end (entries cache (last pre))),
                               pos_end = n_past,
                               last_token = last_tok,
                               reference_count = 1\<rparr>;
                      heap = (if seq_entries target_seq = [] then add_references pre (entries cache)
                              else entries cache);
                      list = (if seq_entries target_seq = [] then pre @ [addr]
                              else seq_entries target_seq @ [addr])
                  in (True,
                      cache\<lparr>entries := heap(addr := entry),
                             n_entries := Suc addr,
                             cache_map := (cache_map cache)(hashs ! chunk_id \<mapsto> addr),
                             use_seq_mem := (use_seq_mem cache)
                               [t := target_seq\<lparr>seq_entries := list, last_pos := n_past,
                                                 last_access := now\<rparr>],
                             submitted := submitted cache @
                               [Cache_mem seq_id (cache_seq_id target_seq) (last_pos target_seq) (- 1)]\<rparr>))"

definition chunk_cache_store ::
  "string list \<Rightarrow> nat \<Rightarrow> nat \<Rightarrow> llama_token \<Rightarrow> int \<Rightarrow> int \<Rightarrow> ChunkInferCache \<Rightarrow>
   (bool \<times> ChunkInferCache) option" where
  "chunk_cache_store hashs chunk_id seq_id last_tok n_past now cache0 =
     (if length hashs \<le> chunk_id then None
      else
        let cache1 = chunk_cache_maintain cache0
        in Some (store_locked hashs chunk_id seq_id last_tok n_past now
                   (cache1\<lparr>cache_wait_set := cache_wait_set cache1 - {hashs ! chunk_id}\<rparr>)))"

text \<open>
  \<^verbatim>\<open>lookup\<close> returns the address the hash maps to. With a count of exactly 1 it sets
  \<^verbatim>\<open>last_access\<close> of every slot whose list holds the entry (the clock is read for each such
  slot; the model takes one reading, \<open>now\<close>).
\<close>

definition chunk_cache_lookup :: "string \<Rightarrow> int \<Rightarrow> ChunkInferCache \<Rightarrow> nat option \<times> ChunkInferCache" where
  "chunk_cache_lookup chunk_hash now cache =
     (case cache_map cache chunk_hash of
        None \<Rightarrow> (None, cache)
      | Some entry \<Rightarrow>
          if reference_count (entries cache entry) \<noteq> 1 then (Some entry, cache)
          else (Some entry,
                cache\<lparr>use_seq_mem :=
                  map (\<lambda>s. if entry \<in> set (seq_entries s) then s\<lparr>last_access := now\<rparr> else s)
                    (use_seq_mem cache)\<rparr>))"

text \<open>
  \<^verbatim>\<open>apply_cache_entry\<close>: the \<^verbatim>\<open>break\<close> leaves the inner loop only, so the last slot that
  holds the entry is the source. \<^verbatim>\<open>deserialize_kv_cache_state\<close> submits the copy and
  returns true.
\<close>

definition apply_cache_entry :: "nat option \<Rightarrow> nat \<Rightarrow> ChunkInferCache \<Rightarrow> bool \<times> ChunkInferCache" where
  "apply_cache_entry entry target_seq_id cache =
     (case entry of
        None \<Rightarrow> (False, cache)
      | Some e \<Rightarrow>
          (case last_index_where (\<lambda>s. e \<in> set (seq_entries s)) (use_seq_mem cache) of
             None \<Rightarrow> (False, cache)
           | Some i \<Rightarrow>
               (True,
                cache\<lparr>submitted := submitted cache @
                  [Cache_mem (cache_seq_id (use_seq_mem cache ! i)) target_seq_id (- 1)
                     (pos_end (entries cache e))]\<rparr>)))"

section \<open>The per-request loop of the batch scheduler (batch-scheduler.cpp)\<close>

text \<open>
  Modelled from the spec: the enumeration \<^verbatim>\<open>TaskStatus\<close> of \<^verbatim>\<open>scheduler_task_info.h\<close>,
  which is not among the sources; the specification gives its five values.
\<close>

datatype TaskStatus = WAIT | PENDING | IN_PROGRESS | COMPLETED | FAILED

text \<open>
  What \<^verbatim>\<open>blocking_infer\<close> reads and writes: the status of each chunk task, the two
  atomics \<^verbatim>\<open>last_token\<close> (a \<^verbatim>\<open>llama_token\<close>) and \<^verbatim>\<open>n_past\<close> (a \<^verbatim>\<open>size_t\<close>) of the
  request's \<^verbatim>\<open>LlamaSeqState\<close>, the chunk inference cache (\<open>None\<close> when \<^verbatim>\<open>kv_cache_\<close> is
  null), the encoder's embedding cache, and the chunks pushed to the task queue, by
  position.
\<close>

record infer_state =
  chunk_status :: "TaskStatus list"
  seq_last_token :: llama_token
  seq_n_past :: u64
  kv_cache :: "ChunkInferCache option"
  encode_cache :: ImageEmbeddingCache
  task_queue :: "nat list"

text \<open>
  The other threads are a parameter. For the chunk at position \<open>i\<close>: \<open>settled i\<close> is
  what the sequence state holds (\<^verbatim>\<open>last_token\<close>, \<^verbatim>\<open>n_past\<close>) when the waits on the
  batcher and on \<^verbatim>\<open>block_waitting_seq\<close> return, after the batcher has set the task to
  \<^verbatim>\<open>IN_PROGRESS\<close>; \<open>encoded i\<close> is what the vision runtime does for an image chunk;
  \<open>clock i\<close> is the steady clock while the chunk is handled.
\<close>

record environment =
  settled :: "nat \<Rightarrow> llama_token \<times> u64"
  encoded :: "nat \<Rightarrow> encode_result"
  clock :: "nat \<Rightarrow> int"
  n_embd_model :: nat

text \<open>
  The first loop submits an encoder task for every image chunk. The encoder thread runs
  the queued tasks on its own; the model runs each task right after its submission, which
  gives the same cache as any other order, since a key that waits or is stored is not
  queued again. \<open>None\<close> stands for no result (the undefined conversion in
  \<^verbatim>\<open>maintain\<close>).
\<close>

fun submit_images ::
  "environment \<Rightarrow> nat \<Rightarrow> mtmd_input_chunk list \<Rightarrow> ImageEmbeddingCache \<Rightarrow> ImageEmbeddingCache option" where
  "submit_images env i [] cache = Some cache"
| "submit_images env i (ImageChunk ident n # rest) cache =
     (case submit_encoder_task (ImageChunk ident n) cache of
        (queued, cache1) \<Rightarrow>
          if queued
          then (case encoder_task (clock env i) (n_embd_model env) (encoded env i)
                       (ImageChunk ident n) cache1 of
                  None \<Rightarrow> None
                | Some cache2 \<Rightarrow> submit_images env (Suc i) rest cache2)
          else submit_images env (Suc i) rest cache1)"
| "submit_images env i (chunk # rest) cache = submit_images env (Suc i) rest cache"

text \<open>
  Lines 47 to 60: with a cache and a chunk that is not the last, wait for the hash and
  reserve it; on a stored hash apply the entry and, on success, complete the chunk from
  the entry. The result says whether the loop continues with the next chunk; \<open>None\<close>
  stands for a thread that stays blocked.
\<close>

definition cache_phase ::
  "environment \<Rightarrow> string list \<Rightarrow> nat \<Rightarrow> nat \<Rightarrow> bool \<Rightarrow> infer_state \<Rightarrow> (bool \<times> infer_state) option" where
  "cache_phase env hashs cmpl_id i is_last st =
     (case kv_cache st of
        None \<Rightarrow> Some (False, st)
      | Some kv \<Rightarrow>
          if is_last then Some (False, st)
          else (case block_waiting_and_prepare (hashs ! i) kv of
                  None \<Rightarrow> None
                | Some kv1 \<Rightarrow>
                    if chunk_cache_storing (hashs ! i) kv1
                    then (case chunk_cache_lookup (hashs ! i) (clock env i) kv1 of
                            (entry, kv2) \<Rightarrow>
                              (case apply_cache_entry entry cmpl_id kv2 of
                                 (success, kv3) \<Rightarrow>
                                   if success
                                   then Some (True,
                                     st\<lparr>chunk_status := (chunk_status st)[i := COMPLETED],
                                        seq_last_token := last_token (entries kv3 (the entry)),
                                        seq_n_past := word_of_int (pos_end (entries kv3 (the entry))),
                                        kv_cache := Some kv3\<rparr>)
                                   else Some (False, st\<lparr>kv_cache := Some kv3\<rparr>)))
                    else Some (False, st\<lparr>kv_cache := Some kv1\<rparr>)))"

text \<open>
  Lines 63 to 72: an image chunk waits for its embedding; without one the chunk fails,
  \<^verbatim>\<open>last_token\<close> becomes \<open>-1\<close>, the hash is released and the loop ends (\<open>False\<close>).
\<close>

definition encoder_phase ::
  "string list \<Rightarrow> nat \<Rightarrow> mtmd_input_chunk \<Rightarrow> infer_state \<Rightarrow> (bool \<times> infer_state) option" where
  "encoder_phase hashs i chunk st =
     (case chunk of
        ImageChunk ident n \<Rightarrow>
          (case wait_for_result chunk (encode_cache st) of
             None \<Rightarrow> None
           | Some (embeddig, cache) \<Rightarrow>
               if embeddig = None
               then Some (False,
                 st\<lparr>encode_cache := cache,
                    chunk_status := (chunk_status st)[i := FAILED],
                    seq_last_token := - 1,
                    kv_cache := map_option (unprepared (hashs ! i)) (kv_cache st)\<rparr>)
               else Some (True, st\<lparr>encode_cache := cache\<rparr>))
      | _ \<Rightarrow> Some (True, st))"

text \<open>
  Lines 86 and 89: \<^verbatim>\<open>size_t last_token = state.last_token.load()\<close> converts the
  \<^verbatim>\<open>int32_t\<close> to 64 bits with its sign, and \<^verbatim>\<open>last_token < 0\<close> compares the unsigned
  result with 0.
\<close>

definition last_token_negative :: "llama_token \<Rightarrow> bool" where
  "last_token_negative state_last_token = ((scast state_last_token :: u64) < 0)"

text \<open>
  Lines 74 to 98: the chunk is pushed to the task queue, the waits return with the
  sequence state the other threads have left, and the chunk is settled. The arguments of
  \<^verbatim>\<open>store\<close> are the \<^verbatim>\<open>size_t\<close> values converted to \<^verbatim>\<open>llama_token\<close> and \<^verbatim>\<open>int32_t\<close>.
  The result says whether the loop continues; \<open>None\<close> stands for the read outside the
  hash vector in \<^verbatim>\<open>store\<close>.
\<close>

definition decode_phase ::
  "environment \<Rightarrow> string list \<Rightarrow> nat \<Rightarrow> nat \<Rightarrow> bool \<Rightarrow> infer_state \<Rightarrow> (bool \<times> infer_state) option" where
  "decode_phase env hashs cmpl_id i is_last st0 =
     (let st = st0\<lparr>task_queue := task_queue st0 @ [i],
                   chunk_status := (chunk_status st0)[i := IN_PROGRESS],
                   seq_last_token := fst (settled env i),
                   seq_n_past := snd (settled env i)\<rparr>;
          last_tok = (scast (seq_last_token st) :: u64);
          npast = seq_n_past st
      in if last_token_negative (seq_last_token st)
         then Some (False,
                st\<lparr>chunk_status := (chunk_status st)[i := FAILED],
                   kv_cache := map_option (unprepared (hashs ! i)) (kv_cache st)\<rparr>)
         else (case kv_cache st of
                 None \<Rightarrow> Some (True, st\<lparr>chunk_status := (chunk_status st)[i := COMPLETED]\<rparr>)
               | Some kv \<Rightarrow>
                   if is_last then Some (True, st\<lparr>chunk_status := (chunk_status st)[i := COMPLETED]\<rparr>)
                   else (case chunk_cache_store hashs i cmpl_id (ucast last_tok)
                                (sint (ucast npast :: 32 word)) (clock env i) kv of
                           None \<Rightarrow> None
                         | Some (stored, kv') \<Rightarrow>
                             Some (True, st\<lparr>chunk_status := (chunk_status st)[i := COMPLETED],
                                           kv_cache := Some kv'\<rparr>))))"

text \<open>The loop over the chunks, from position \<open>i\<close> on; \<open>rest = []\<close> marks the last chunk.\<close>

fun infer_loop ::
  "environment \<Rightarrow> string list \<Rightarrow> nat \<Rightarrow> nat \<Rightarrow> mtmd_input_chunk list \<Rightarrow> infer_state \<Rightarrow>
   infer_state option" where
  "infer_loop env hashs cmpl_id i [] st = Some st"
| "infer_loop env hashs cmpl_id i (chunk # rest) st =
     (case cache_phase env hashs cmpl_id i (rest = []) st of
        None \<Rightarrow> None
      | Some (True, st1) \<Rightarrow> infer_loop env hashs cmpl_id (Suc i) rest st1
      | Some (False, st1) \<Rightarrow>
          (case encoder_phase hashs i chunk st1 of
             None \<Rightarrow> None
           | Some (False, st2) \<Rightarrow> Some st2
           | Some (True, st2) \<Rightarrow>
               (case decode_phase env hashs cmpl_id i (rest = []) st2 of
                  None \<Rightarrow> None
                | Some (False, st3) \<Rightarrow> Some st3
                | Some (True, st3) \<Rightarrow> infer_loop env hashs cmpl_id (Suc i) rest st3)))"

definition blocking_infer ::
  "environment \<Rightarrow> mtmd_input_chunk list \<Rightarrow> nat \<Rightarrow> infer_state \<Rightarrow> infer_state option" where
  "blocking_infer env input_chunks chat_cmpl_id st =
     (case submit_images env 0 input_chunks (encode_cache st) of
        None \<Rightarrow> None
      | Some cache \<Rightarrow>
          infer_loop env (chunk_hashs input_chunks) chat_cmpl_id 0 input_chunks
            (st\<lparr>encode_cache := cache\<rparr>))"

text \<open>
  The settling the specification describes: the chunk fails when \<^verbatim>\<open>last_token\<close>, read as
  the signed value it is, is negative. Written from the specification's words.
\<close>

definition spec_last_token_negative :: "llama_token \<Rightarrow> bool" where
  "spec_last_token_negative state_last_token = (sint state_last_token < 0)"

text \<open>
  A request of two text chunks without a chunk inference cache, and other threads whose
  decode of the first chunk fails: they leave \<^verbatim>\<open>last_token = -1\<close> for the chunk at
  position 0, and the token 5 for the chunk at position 1.
\<close>

definition failing_decode_env :: environment where
  "failing_decode_env =
     \<lparr>settled = (\<lambda>i. if i = 0 then (- 1, 1) else (5, 2)),
      encoded = (\<lambda>i. \<lparr>ret = 0, output_embd = None\<rparr>),
      clock = (\<lambda>i. 0),
      n_embd_model = 8\<rparr>"

definition request_state :: infer_state where
  "request_state =
     \<lparr>chunk_status = [WAIT, WAIT], seq_last_token = - 1, seq_n_past = 0, kv_cache = None,
      encode_cache = new_ImageEmbeddingCache 100 1024 0, task_queue = []\<rparr>"

section \<open>The reference count invariant of the chunk inference cache\<close>

text \<open>
  \<open>occurrences cache a\<close> is the number of positions in the lists of the cache slots that
  hold the entry at address \<open>a\<close>; \<open>holding_slots cache a\<close> is the number of slots whose
  list holds it, the count the specification speaks of.
\<close>

definition occurrences :: "ChunkInferCache \<Rightarrow> nat \<Rightarrow> nat" where
  "occurrences cache a = (\<Sum>s\<leftarrow>use_seq_mem cache. count_list (seq_entries s) a)"


text \<open>
  The invariant of the cache between two calls: the slots have distinct keys, every count
  is the number of list positions that hold the entry, a mapped hash is the hash of its
  entry and that entry is in some list, and every entry in a list is allocated and mapped
  under its own hash. \<open>evicting_invariant\<close> is its form inside \<^verbatim>\<open>maintain\<close>, while
  the hashes to delete are collected and not yet erased from the map.
\<close>

definition cache_invariant :: "ChunkInferCache \<Rightarrow> bool" where
  "cache_invariant cache \<longleftrightarrow>
     distinct (map cache_seq_id (use_seq_mem cache)) \<and>
     (\<forall>a. reference_count (entries cache a) = int (occurrences cache a)) \<and>
     (\<forall>h a. cache_map cache h = Some a \<longrightarrow>
        prompt_hash (entries cache a) = h \<and> 0 < occurrences cache a) \<and>
     (\<forall>s\<in>set (use_seq_mem cache). \<forall>a\<in>set (seq_entries s).
        a < n_entries cache \<and> cache_map cache (prompt_hash (entries cache a)) = Some a)"


text \<open>
  Three states of a cache with the slots 4 and 5: after the store of the hash vector
  \<^verbatim>\<open>[h]\<close> at position 0, then of \<^verbatim>\<open>[h, x]\<close> at position 1, then of \<^verbatim>\<open>[h, h, g]\<close> at
  position 2 (a vector that repeats a hash, as \<^verbatim>\<open>chunk_hashs\<close> returns for a chunk with an
  empty description).
\<close>

definition state_one_store :: ChunkInferCache where
  "state_one_store =
     \<lparr>entries = (\<lambda>a. new_CacheEntry)
        (0 := \<lparr>prompt_hash = ''h'', pos_begin = 0, pos_end = 3, last_token = 7, reference_count = 1\<rparr>),
      n_entries = 1, cache_wait_set = {}, cache_map = [''h'' \<mapsto> 0],
      use_seq_mem = [new_SeqEntryList 4,
                     \<lparr>cache_seq_id = 5, last_pos = 3, seq_entries = [0], last_access = 1\<rparr>],
      submitted = [Cache_mem 0 5 0 (- 1)]\<rparr>"

definition state_two_stores :: ChunkInferCache where
  "state_two_stores =
     \<lparr>entries = (\<lambda>a. new_CacheEntry)
        (0 := \<lparr>prompt_hash = ''h'', pos_begin = 0, pos_end = 3, last_token = 7, reference_count = 1\<rparr>,
         1 := \<lparr>prompt_hash = ''x'', pos_begin = 3, pos_end = 6, last_token = 8, reference_count = 1\<rparr>),
      n_entries = 2, cache_wait_set = {}, cache_map = [''h'' \<mapsto> 0, ''x'' \<mapsto> 1],
      use_seq_mem = [new_SeqEntryList 4,
                     \<lparr>cache_seq_id = 5, last_pos = 6, seq_entries = [0, 1], last_access = 2\<rparr>],
      submitted = [Cache_mem 0 5 0 (- 1), Cache_mem 0 5 3 (- 1)]\<rparr>"

definition state_three_stores :: ChunkInferCache where
  "state_three_stores =
     \<lparr>entries = (\<lambda>a. new_CacheEntry)
        (0 := \<lparr>prompt_hash = ''h'', pos_begin = 0, pos_end = 3, last_token = 7, reference_count = 3\<rparr>,
         1 := \<lparr>prompt_hash = ''x'', pos_begin = 3, pos_end = 6, last_token = 8, reference_count = 1\<rparr>,
         2 := \<lparr>prompt_hash = ''g'', pos_begin = 3, pos_end = 9, last_token = 9, reference_count = 1\<rparr>),
      n_entries = 3, cache_wait_set = {}, cache_map = [''h'' \<mapsto> 0, ''x'' \<mapsto> 1, ''g'' \<mapsto> 2],
      use_seq_mem = [\<lparr>cache_seq_id = 4, last_pos = 9, seq_entries = [0, 0, 2], last_access = 3\<rparr>,
                     \<lparr>cache_seq_id = 5, last_pos = 6, seq_entries = [0, 1], last_access = 2\<rparr>],
      submitted = [Cache_mem 0 5 0 (- 1), Cache_mem 0 5 3 (- 1), Cache_mem 0 4 0 (- 1)]\<rparr>"

section \<open>Properties of the prefix hashes\<close>

lemma chunk_hashs_from_length: "length (chunk_hashs_from p cs) = length cs"
  by (induction cs arbitrary: p) (simp_all add: Let_def)

lemma chunk_hashs_from_nth:
  "i < length cs \<Longrightarrow>
   chunk_hashs_from p cs ! i =
     hash_to_hex (simple_hash (p @ concat (map get_chunk_description (take (Suc i) cs))))"
proof (induction cs arbitrary: p i)
  case Nil
  then show ?case by simp
next
  case (Cons c cs)
  show ?case
  proof (cases i)
    case 0
    then show ?thesis by (simp add: Let_def)
  next
    case (Suc j)
    with Cons.prems have "j < length cs" by simp
    from Cons.IH [OF this, of "p @ get_chunk_description c"] Suc
    show ?thesis by (simp add: Let_def)
  qed
qed




text \<open>
  Claim C3, as the code has it. The hash at position \<open>i\<close> is a function of the descriptor
  stream of the chunks \<open>0..i\<close> alone: it is \<^verbatim>\<open>hash_to_hex\<close> of \<^verbatim>\<open>simple_hash\<close> of that
  stream, where \<^verbatim>\<open>simple_hash\<close> is the xor-then-multiply fold over 64-bit words with
  offset basis \<^verbatim>\<open>0x811c9dc5\<close> and multiplier \<^verbatim>\<open>0x01000193\<close> (the constants of 32-bit
  FNV-1a), not with the constants of 64-bit FNV-1a.
\<close>

theorem chunk_hashs_is_simple_hash_of_stream:
  "i < length input_chunks \<Longrightarrow>
   chunk_hashs input_chunks ! i = hash_to_hex (simple_hash (descriptor_stream input_chunks i))"
  by (simp add: chunk_hashs_def descriptor_stream_def chunk_hashs_from_nth)

theorem chunk_hashs_is_simple_hash_of_stream_witness:
  "1 < length [TextChunk [1], ImageChunk ''a'' 2] \<and>
   chunk_hashs [TextChunk [1], ImageChunk ''a'' 2] ! 1 = hash_to_hex (simple_hash ''1,IMG:a,'')"
  using chunk_hashs_is_simple_hash_of_stream [of 1 "[TextChunk [1], ImageChunk ''a'' 2]"]
  by (simp add: descriptor_stream_def show_int_def show_nat.simps hex_digit_def)

text \<open>
  Claim C3, as the specification states it, fails: for the one-chunk list holding the text
  token 1 the descriptor stream is \<^verbatim>\<open>1,\<close>; the engine's hash is \<^verbatim>\<open>347559441feb3090\<close>
  and 64-bit FNV-1a of the same stream is \<^verbatim>\<open>07f89607b4ba0f70\<close>.
\<close>

theorem chunk_hashs_fnv1a64_counterexample:
  "chunk_hashs [TextChunk [1]] ! 0 \<noteq>
   hash_to_hex (spec_fnv1a64 (descriptor_stream [TextChunk [1]] 0))"
  by code_simp



section \<open>Properties of the single-precision scaling\<close>






section \<open>Properties of the prompt cropping\<close>

lemma total_tokens_Cons [simp]:
  "total_tokens (c # cs) = int (mtmd_input_chunk_get_n_tokens c) + total_tokens cs"
  by (simp add: total_tokens_def)

lemma total_tokens_Nil [simp]: "total_tokens [] = 0"
  by (simp add: total_tokens_def)





section \<open>Properties of the copy closure\<close>

text \<open>
  Claim C8, as the code has it. The closure clamps the start to
  \<open>p0' = max p0 (max_pos + 1)\<close> and calls the runtime's copy with \<open>[p0', p1)\<close> exactly
  when \<open>p1 = -1\<close> or \<open>p0' \<le> p1\<close>: that is when the range is not empty, and also when
  \<open>p0' = p1\<close>, where the call is made with the empty range \<open>[p1, p1)\<close>. Otherwise it makes
  no call, so the destination is left as it is.
\<close>

theorem cache_mem_task_copy_condition:
  "cache_mem_task max_pos src_seq_id dest_seq_id p0 p1 =
     (if spec_range_nonempty (max p0 (max_pos + 1)) p1 \<or> max p0 (max_pos + 1) = p1
      then Some (Seq_cp src_seq_id dest_seq_id (max p0 (max_pos + 1)) p1)
      else None)"
  by (auto simp: cache_mem_task_def spec_range_nonempty_def Let_def)

text \<open>
  Claim C8, as the specification states it, fails where the clamped start meets \<open>p1\<close>.
  Applying a cache entry of three positions (\<open>p0 = -1\<close>, \<open>p1 = 3\<close>) to a sequence that
  already holds the positions 0 to 2: the range \<open>[3, 3)\<close> is empty and the copy is
  called all the same.
\<close>

theorem cache_mem_task_empty_range_counterexample:
  "\<not> spec_range_nonempty (max (- 1) (2 + 1)) 3 \<and>
   cache_mem_task 2 9 0 (- 1) 3 = Some (Seq_cp 9 0 3 3)"
  by (simp add: cache_mem_task_def spec_range_nonempty_def)

section \<open>Properties of the image embedding cache and the encoder\<close>

lemma encoder_task_failure:
  "ret res \<noteq> 0 \<or> output_embd res = None \<Longrightarrow> encoder_task now n res chunk cache = Some cache"
  by (cases chunk) (auto simp: encoder_task_def)

lemma submit_encoder_task_queued:
  "submit_encoder_task chunk cache = (True, cache1) \<Longrightarrow>
   image_hash chunk \<noteq> [] \<and>
   cache1 = cache\<lparr>image_wait_set := insert (image_hash chunk) (image_wait_set cache)\<rparr>"
  by (auto simp: submit_encoder_task_def image_cache_prepare_def Let_def split: if_splits)

text \<open>
  Claim C2 fails on the code. When the encoding of a queued image chunk fails
  (\<^verbatim>\<open>mtmd_encode_chunk\<close> returns nonzero, or the output embedding is null),
  \<^verbatim>\<open>encoder_task\<close> returns without touching the cache: the key that
  \<^verbatim>\<open>submit_encoder_task\<close> put into the wait set is still there, and the condition
  \<^verbatim>\<open>wait_for_result\<close> waits for does not hold, so the waiting thread is not released.
\<close>

theorem encoder_failure_keeps_key_waiting:
  assumes "ret res \<noteq> 0 \<or> output_embd res = None"
    and "submit_encoder_task chunk cache = (True, cache1)"
  shows "encoder_task now n res chunk cache1 = Some cache1 \<and>
         image_hash chunk \<in> image_wait_set cache1 \<and>
         wait_for_result chunk cache1 = None"
  using submit_encoder_task_queued [OF assms(2)] encoder_task_failure [OF assms(1)]
  by (simp add: wait_for_result_def image_cache_waiting_def)

theorem encoder_failure_keeps_key_waiting_witness:
  "submit_encoder_task (ImageChunk ''img1'' 4) (new_ImageEmbeddingCache 100 1024 0) =
     (True, (new_ImageEmbeddingCache 100 1024 0)\<lparr>image_wait_set := {''img1''}\<rparr>) \<and>
   encoder_task 1 8 \<lparr>ret = 1, output_embd = None\<rparr> (ImageChunk ''img1'' 4)
       ((new_ImageEmbeddingCache 100 1024 0)\<lparr>image_wait_set := {''img1''}\<rparr>) =
     Some ((new_ImageEmbeddingCache 100 1024 0)\<lparr>image_wait_set := {''img1''}\<rparr>) \<and>
   ''img1'' \<in> image_wait_set ((new_ImageEmbeddingCache 100 1024 0)\<lparr>image_wait_set := {''img1''}\<rparr>) \<and>
   wait_for_result (ImageChunk ''img1'' 4)
       ((new_ImageEmbeddingCache 100 1024 0)\<lparr>image_wait_set := {''img1''}\<rparr>) = None"
proof -
  have s: "submit_encoder_task (ImageChunk ''img1'' 4) (new_ImageEmbeddingCache 100 1024 0) =
     (True, (new_ImageEmbeddingCache 100 1024 0)\<lparr>image_wait_set := {''img1''}\<rparr>)"
    by (simp add: submit_encoder_task_def image_cache_prepare_def new_ImageEmbeddingCache_def
        Let_def)
  have r: "ret \<lparr>ret = 1, output_embd = None\<rparr> \<noteq> 0 \<or>
           output_embd \<lparr>ret = 1, output_embd = None\<rparr> = None"
    by simp
  from encoder_failure_keeps_key_waiting [OF r s, of 1 8] s show ?thesis by simp
qed

lemma f32_scale_0_8_2: "f32_scale_0_8 2 = 1"
  by (simp add: f32_scale_0_8_def round_to_f32_def bit_length.simps Let_def)

lemma f32_scale_0_8_mb_1024: "f32_scale_0_8_mb 1024 = 858993472"
  by (simp add: f32_scale_0_8_mb_def round_to_f32_def bit_length.simps Let_def)

lemma image_cache_maintain_unchanged:
  "\<not> need_maintain now cache \<Longrightarrow> image_cache_maintain now cache = Some cache"
  by (simp add: image_cache_maintain_def)

text \<open>
  Claim C4 fails on the code. \<^verbatim>\<open>maintain\<close> compares the elapsed time in microseconds with
  \<^verbatim>\<open>maintenance_interval_\<close> = 5000, which the header comments as milliseconds: the gate
  opens 5 milliseconds after the last maintenance, not 5 seconds. The cache below is full
  (two entries of at most two); 10 milliseconds after the last maintenance the interval of
  the specification has not elapsed, and \<^verbatim>\<open>maintain\<close> evicts the oldest key \<^verbatim>\<open>a\<close>.
\<close>

theorem image_cache_maintain_evicts_after_10_ms:
  "embed_order cache_with_two_images = [''a'', ''b''] \<and>
   \<not> spec_interval_elapsed 10000000 cache_with_two_images \<and>
   map_option embed_order (image_cache_maintain 10000000 cache_with_two_images) = Some [''b'']"
proof -
  have order: "embed_order cache_with_two_images = [''a'', ''b'']"
    by (simp add: cache_with_two_images_def image_cache_store_def image_cache_maintain_def
        need_maintain_def new_ImageEmbeddingCache_def duration_cast_microseconds_def Let_def)
  have early: "\<not> spec_interval_elapsed 10000000 cache_with_two_images"
    by (simp add: cache_with_two_images_def image_cache_store_def image_cache_maintain_def
        need_maintain_def new_ImageEmbeddingCache_def duration_cast_microseconds_def Let_def
        spec_interval_elapsed_def)
  have evicted: "map_option embed_order (image_cache_maintain 10000000 cache_with_two_images) =
                 Some [''b'']"
    by (simp add: cache_with_two_images_def image_cache_store_def image_cache_maintain_def
        need_maintain_def new_ImageEmbeddingCache_def duration_cast_microseconds_def Let_def
        float_to_int32_def byte_size_of_def f32_scale_0_8_2 f32_scale_0_8_mb_1024)
  from order early evicted show ?thesis by blast
qed

section \<open>Properties of the chunk inference cache\<close>

lemma last_index_where_Some:
  assumes "last_index_where P xs = Some i"
  shows "i < length xs \<and> P (xs ! i)"
proof -
  define l where "l = filter (\<lambda>i. P (xs ! i)) [0..<length xs]"
  from assms have "l \<noteq> []" and "i = last l"
    by (auto simp: last_index_where_def l_def split: list.splits)
  then have "i \<in> set l" by simp
  then show ?thesis by (simp add: l_def)
qed

lemma last_index_where_None:
  "last_index_where P xs = None \<longleftrightarrow> (\<forall>x\<in>set xs. \<not> P x)"
proof -
  have "last_index_where P xs = None \<longleftrightarrow> filter (\<lambda>i. P (xs ! i)) [0..<length xs] = []"
    by (simp add: last_index_where_def split: list.splits)
  also have "\<dots> \<longleftrightarrow> (\<forall>i<length xs. \<not> P (xs ! i))"
    by (auto simp: filter_empty_conv)
  also have "\<dots> \<longleftrightarrow> (\<forall>x\<in>set xs. \<not> P x)"
    by (simp add: all_set_conv_all_nth)
  finally show ?thesis .
qed


















lemma cache_invariant_wait_set [simp]:
  "cache_invariant (c\<lparr>cache_wait_set := w\<rparr>) = cache_invariant c"
  by (simp add: cache_invariant_def occurrences_def)

lemma cache_invariant_submitted [simp]:
  "cache_invariant (c\<lparr>submitted := w\<rparr>) = cache_invariant c"
  by (simp add: cache_invariant_def occurrences_def)











lemma upt_0_2: "[0..<2] = [0, Suc 0]"
  by (simp add: upt_rec numeral_2_eq_2)



lemma maintain_one: "chunk_cache_maintain state_one_store = state_one_store"
  by (simp add: chunk_cache_maintain_def state_one_store_def new_SeqEntryList_def Let_def)



lemma second_store:
  "chunk_cache_store [''h'', ''x''] 1 0 8 6 2 state_one_store = Some (True, state_two_stores)"
  unfolding chunk_cache_store_def maintain_one
  by (simp add: store_locked_def new_SeqEntryList_def Let_def pre_entries_def
      pre_chunk_indexs_def select_target_def last_index_where_def upt_0_2 add_references_def
      state_one_store_def state_two_stores_def)


text \<open>
  Claim C10. A lookup of a stored hash returns the mapped entry and changes neither the
  map from hashes to entries, nor the entries, nor the entry list of any slot. When the
  entry's count is exactly 1 it sets \<^verbatim>\<open>last_access\<close> of the slots that hold the entry; when
  the count is not 1 it leaves the whole cache as it is, so \<^verbatim>\<open>maintain\<close> afterwards
  orders and evicts the slots exactly as it would have without the hit.
\<close>

theorem chunk_cache_lookup_frame:
  assumes "cache_map cache chunk_hash = Some entry"
  shows "fst (chunk_cache_lookup chunk_hash now cache) = Some entry \<and>
         cache_map (snd (chunk_cache_lookup chunk_hash now cache)) = cache_map cache \<and>
         entries (snd (chunk_cache_lookup chunk_hash now cache)) = entries cache \<and>
         map seq_entries (use_seq_mem (snd (chunk_cache_lookup chunk_hash now cache))) =
           map seq_entries (use_seq_mem cache) \<and>
         (reference_count (entries cache entry) = 1 \<longrightarrow>
            use_seq_mem (snd (chunk_cache_lookup chunk_hash now cache)) =
              map (\<lambda>s. if entry \<in> set (seq_entries s) then s\<lparr>last_access := now\<rparr> else s)
                (use_seq_mem cache)) \<and>
         (reference_count (entries cache entry) \<noteq> 1 \<longrightarrow>
            snd (chunk_cache_lookup chunk_hash now cache) = cache \<and>
            chunk_cache_maintain (snd (chunk_cache_lookup chunk_hash now cache)) =
              chunk_cache_maintain cache)"
  using assms by (simp add: chunk_cache_lookup_def comp_def)

theorem chunk_cache_lookup_frame_witness:
  "cache_map state_one_store ''h'' = Some 0 \<and>
   reference_count (entries state_one_store 0) = 1 \<and>
   fst (chunk_cache_lookup ''h'' 9 state_one_store) = Some 0 \<and>
   map last_access (use_seq_mem (snd (chunk_cache_lookup ''h'' 9 state_one_store))) = [0, 9] \<and>
   cache_map state_three_stores ''h'' = Some 0 \<and>
   reference_count (entries state_three_stores 0) = 3 \<and>
   snd (chunk_cache_lookup ''h'' 9 state_three_stores) = state_three_stores"
proof -
  have m1: "cache_map state_one_store ''h'' = Some 0"
    and r1: "reference_count (entries state_one_store 0) = 1"
    by (simp_all add: state_one_store_def)
  have m3: "cache_map state_three_stores ''h'' = Some 0"
    and r3: "reference_count (entries state_three_stores 0) = 3"
    by (simp_all add: state_three_stores_def)
  from chunk_cache_lookup_frame [OF m1, of 9] r1
  have "fst (chunk_cache_lookup ''h'' 9 state_one_store) = Some 0"
    and "use_seq_mem (snd (chunk_cache_lookup ''h'' 9 state_one_store)) =
           map (\<lambda>s. if 0 \<in> set (seq_entries s) then s\<lparr>last_access := 9\<rparr> else s)
             (use_seq_mem state_one_store)"
    by simp_all
  then have a: "fst (chunk_cache_lookup ''h'' 9 state_one_store) = Some 0"
    and b: "map last_access (use_seq_mem (snd (chunk_cache_lookup ''h'' 9 state_one_store))) = [0, 9]"
    by (simp_all add: state_one_store_def new_SeqEntryList_def)
  from chunk_cache_lookup_frame [OF m3, of 9] r3
  have c: "snd (chunk_cache_lookup ''h'' 9 state_three_stores) = state_three_stores"
    by simp
  from m1 r1 a b m3 r3 c show ?thesis by blast
qed

lemma pre_chunk_indexs_not_last:
  assumes "cache_map cache (hashs ! chunk_id) = None"
  shows "(pre_chunk_indexs hashs chunk_id cache \<noteq> [] \<and>
          last (pre_chunk_indexs hashs chunk_id cache) = chunk_id) = False"
proof -
  have "chunk_id \<notin> set (pre_chunk_indexs hashs chunk_id cache)"
    using assms by (simp add: pre_chunk_indexs_def del: upt_Suc)
  then show ?thesis using last_in_set by metis
qed

lemma select_target_prefix_slot:
  assumes "pre \<noteq> []"
    and "\<exists>s\<in>set (use_seq_mem cache). seq_entries s \<noteq> [] \<and> last (seq_entries s) = last pre"
  shows "\<exists>t<length (use_seq_mem cache). select_target pre cache = Some t \<and>
           seq_entries (use_seq_mem cache ! t) \<noteq> [] \<and>
           last (seq_entries (use_seq_mem cache ! t)) = last pre"
proof -
  from assms(2)
  have "last_index_where (\<lambda>s. seq_entries s \<noteq> [] \<and> last (seq_entries s) = last pre)
          (use_seq_mem cache) \<noteq> None"
    by (simp add: last_index_where_None)
  then obtain t where t: "last_index_where (\<lambda>s. seq_entries s \<noteq> [] \<and> last (seq_entries s) = last pre)
          (use_seq_mem cache) = Some t" by blast
  from last_index_where_Some [OF t] t assms(1) show ?thesis
    by (simp add: select_target_def)
qed

lemma select_target_empty_slot:
  assumes "\<not> (pre \<noteq> [] \<and>
             (\<exists>s\<in>set (use_seq_mem cache). seq_entries s \<noteq> [] \<and> last (seq_entries s) = last pre))"
    and "\<exists>s\<in>set (use_seq_mem cache). seq_entries s = []"
  shows "\<exists>t<length (use_seq_mem cache). select_target pre cache = Some t \<and>
           seq_entries (use_seq_mem cache ! t) = []"
proof -
  from assms(1)
  have first: "(if pre \<noteq> []
            then last_index_where (\<lambda>s. seq_entries s \<noteq> [] \<and> last (seq_entries s) = last pre)
                   (use_seq_mem cache)
            else None) = None"
    by (auto simp: last_index_where_None)
  from assms(2) have "last_index_where (\<lambda>s. seq_entries s = []) (use_seq_mem cache) \<noteq> None"
    by (simp add: last_index_where_None)
  then obtain t where t: "last_index_where (\<lambda>s. seq_entries s = []) (use_seq_mem cache) = Some t"
    by blast
  from last_index_where_Some [OF t] t first show ?thesis
    by (simp add: select_target_def)
qed

lemma select_target_none:
  assumes "\<not> (pre \<noteq> [] \<and>
             (\<exists>s\<in>set (use_seq_mem cache). seq_entries s \<noteq> [] \<and> last (seq_entries s) = last pre))"
    and "\<not> (\<exists>s\<in>set (use_seq_mem cache). seq_entries s = [])"
  shows "select_target pre cache = None"
proof -
  from assms(1)
  have first: "(if pre \<noteq> []
            then last_index_where (\<lambda>s. seq_entries s \<noteq> [] \<and> last (seq_entries s) = last pre)
                   (use_seq_mem cache)
            else None) = None"
    by (auto simp: last_index_where_None)
  from assms(2) have "last_index_where (\<lambda>s. seq_entries s = []) (use_seq_mem cache) = None"
    by (simp add: last_index_where_None)
  with first show ?thesis by (simp add: select_target_def)
qed

lemma store_locked_published:
  assumes "cache_map cache (hashs ! chunk_id) = None"
    and "select_target (pre_entries hashs chunk_id cache) cache = Some t"
    and "t < length (use_seq_mem cache)"
    and "store_locked hashs chunk_id seq_id tok n_past now cache = (ok, cache')"
  shows "ok \<and>
         entries cache' (n_entries cache) =
           \<lparr>prompt_hash = hashs ! chunk_id,
            pos_begin = (if pre_entries hashs chunk_id cache = [] then 0
                         else pos_end (entries cache (last (pre_entries hashs chunk_id cache)))),
            pos_end = n_past, last_token = tok, reference_count = 1\<rparr> \<and>
         cache_map cache' = (cache_map cache)(hashs ! chunk_id \<mapsto> n_entries cache) \<and>
         seq_entries (use_seq_mem cache' ! t) =
           (if seq_entries (use_seq_mem cache ! t) = []
            then pre_entries hashs chunk_id cache @ [n_entries cache]
            else seq_entries (use_seq_mem cache ! t) @ [n_entries cache])"
  using assms(2,3,4)
  by (auto simp: store_locked_def Let_def pre_chunk_indexs_not_last [OF assms(1)])

lemma pre_entries_nonempty_iff:
  "pre_entries hashs chunk_id cache \<noteq> [] \<longleftrightarrow>
   (\<exists>i\<le>chunk_id. cache_map cache (hashs ! i) \<noteq> None)"
proof -
  have "pre_entries hashs chunk_id cache \<noteq> [] \<longleftrightarrow>
        (\<exists>i\<in>set [0..<Suc chunk_id]. cache_map cache (hashs ! i) \<noteq> None)"
    unfolding pre_entries_def pre_chunk_indexs_def
    by (simp add: filter_empty_conv del: upt_Suc)
  also have "\<dots> \<longleftrightarrow> (\<exists>i\<le>chunk_id. cache_map cache (hashs ! i) \<noteq> None)"
    by (auto simp: less_Suc_eq_le simp del: upt_Suc)
  finally show ?thesis .
qed

text \<open>
  Claim C5. \<open>cache\<close> is the cache after \<^verbatim>\<open>maintain\<close> and after the hash has left the
  wait set; \<open>pre\<close> are the entries \<^verbatim>\<open>store\<close> finds for the hashes \<open>0..chunk_id\<close>, not empty
  exactly when one of these hashes is stored. When the hash at \<open>chunk_id\<close> is not stored:
  if \<open>pre\<close> is not empty and some slot's list ends with the last entry of \<open>pre\<close>, such
  a slot is the target and the new entry is appended to its list; otherwise, if some slot
  is empty, an empty slot is the target and its list becomes \<open>pre\<close> followed by the new
  entry; otherwise \<^verbatim>\<open>store\<close> returns false and leaves the cache as it is. The new entry
  has \<open>pos_begin = 0\<close> when \<open>pre\<close> is empty and the \<open>pos_end\<close> of the last entry of
  \<open>pre\<close> otherwise, \<open>pos_end = n_past\<close>, the given last token and count 1, and the
  hash is mapped to it.
\<close>

theorem chunk_cache_store_target_rule:
  assumes len: "chunk_id < length hashs"
    and cache: "cache = (chunk_cache_maintain cache0)\<lparr>cache_wait_set :=
                  cache_wait_set (chunk_cache_maintain cache0) - {hashs ! chunk_id}\<rparr>"
    and new: "cache_map cache (hashs ! chunk_id) = None"
    and pre: "pre = pre_entries hashs chunk_id cache"
    and entry: "entry = \<lparr>prompt_hash = hashs ! chunk_id,
                  pos_begin = (if pre = [] then 0 else pos_end (entries cache (last pre))),
                  pos_end = n_past, last_token = tok, reference_count = 1\<rparr>"
  shows "(pre \<noteq> [] \<longleftrightarrow> (\<exists>i\<le>chunk_id. cache_map cache (hashs ! i) \<noteq> None)) \<and>
    (\<exists>ok cache'.
      chunk_cache_store hashs chunk_id seq_id tok n_past now cache0 = Some (ok, cache') \<and>
      (if pre \<noteq> [] \<and>
          (\<exists>s\<in>set (use_seq_mem cache). seq_entries s \<noteq> [] \<and> last (seq_entries s) = last pre)
       then \<exists>t<length (use_seq_mem cache).
              seq_entries (use_seq_mem cache ! t) \<noteq> [] \<and>
              last (seq_entries (use_seq_mem cache ! t)) = last pre \<and>
              ok \<and>
              seq_entries (use_seq_mem cache' ! t) =
                seq_entries (use_seq_mem cache ! t) @ [n_entries cache] \<and>
              entries cache' (n_entries cache) = entry \<and>
              cache_map cache' = (cache_map cache)(hashs ! chunk_id \<mapsto> n_entries cache)
       else if \<exists>s\<in>set (use_seq_mem cache). seq_entries s = []
       then \<exists>t<length (use_seq_mem cache).
              seq_entries (use_seq_mem cache ! t) = [] \<and>
              ok \<and>
              seq_entries (use_seq_mem cache' ! t) = pre @ [n_entries cache] \<and>
              entries cache' (n_entries cache) = entry \<and>
              cache_map cache' = (cache_map cache)(hashs ! chunk_id \<mapsto> n_entries cache)
       else \<not> ok \<and> cache' = cache))"
proof -
  obtain ok cache' where sl: "store_locked hashs chunk_id seq_id tok n_past now cache = (ok, cache')"
    by (cases "store_locked hashs chunk_id seq_id tok n_past now cache")
  from len have st: "chunk_cache_store hashs chunk_id seq_id tok n_past now cache0 = Some (ok, cache')"
    by (simp add: chunk_cache_store_def Let_def cache [symmetric] sl)
  have rule: "if pre \<noteq> [] \<and>
          (\<exists>s\<in>set (use_seq_mem cache). seq_entries s \<noteq> [] \<and> last (seq_entries s) = last pre)
       then \<exists>t<length (use_seq_mem cache).
              seq_entries (use_seq_mem cache ! t) \<noteq> [] \<and>
              last (seq_entries (use_seq_mem cache ! t)) = last pre \<and>
              ok \<and>
              seq_entries (use_seq_mem cache' ! t) =
                seq_entries (use_seq_mem cache ! t) @ [n_entries cache] \<and>
              entries cache' (n_entries cache) = entry \<and>
              cache_map cache' = (cache_map cache)(hashs ! chunk_id \<mapsto> n_entries cache)
       else if \<exists>s\<in>set (use_seq_mem cache). seq_entries s = []
       then \<exists>t<length (use_seq_mem cache).
              seq_entries (use_seq_mem cache ! t) = [] \<and>
              ok \<and>
              seq_entries (use_seq_mem cache' ! t) = pre @ [n_entries cache] \<and>
              entries cache' (n_entries cache) = entry \<and>
              cache_map cache' = (cache_map cache)(hashs ! chunk_id \<mapsto> n_entries cache)
       else \<not> ok \<and> cache' = cache"
  proof (cases "pre \<noteq> [] \<and>
          (\<exists>s\<in>set (use_seq_mem cache). seq_entries s \<noteq> [] \<and> last (seq_entries s) = last pre)")
    case True
    then obtain t where t: "t < length (use_seq_mem cache)"
      and sel: "select_target pre cache = Some t"
      and ne: "seq_entries (use_seq_mem cache ! t) \<noteq> []"
      and la: "last (seq_entries (use_seq_mem cache ! t)) = last pre"
      using select_target_prefix_slot [of pre cache] by blast
    from store_locked_published [OF new sel [unfolded pre] t sl] ne
    have "ok \<and> seq_entries (use_seq_mem cache' ! t) =
                seq_entries (use_seq_mem cache ! t) @ [n_entries cache] \<and>
              entries cache' (n_entries cache) = entry \<and>
              cache_map cache' = (cache_map cache)(hashs ! chunk_id \<mapsto> n_entries cache)"
      by (simp add: entry pre)
    with t ne la have "\<exists>t<length (use_seq_mem cache).
              seq_entries (use_seq_mem cache ! t) \<noteq> [] \<and>
              last (seq_entries (use_seq_mem cache ! t)) = last pre \<and>
              ok \<and>
              seq_entries (use_seq_mem cache' ! t) =
                seq_entries (use_seq_mem cache ! t) @ [n_entries cache] \<and>
              entries cache' (n_entries cache) = entry \<and>
              cache_map cache' = (cache_map cache)(hashs ! chunk_id \<mapsto> n_entries cache)"
      by blast
    with True show ?thesis by (simp only: if_True if_False simp_thms)
  next
    case noprefix: False
    show ?thesis
    proof (cases "\<exists>s\<in>set (use_seq_mem cache). seq_entries s = []")
      case True
      with noprefix obtain t where t: "t < length (use_seq_mem cache)"
        and sel: "select_target pre cache = Some t"
        and em: "seq_entries (use_seq_mem cache ! t) = []"
        using select_target_empty_slot [of pre cache] by blast
      from store_locked_published [OF new sel [unfolded pre] t sl] em
      have "ok \<and> seq_entries (use_seq_mem cache' ! t) = pre @ [n_entries cache] \<and>
              entries cache' (n_entries cache) = entry \<and>
              cache_map cache' = (cache_map cache)(hashs ! chunk_id \<mapsto> n_entries cache)"
        by (simp add: entry pre)
      with t em have "\<exists>t<length (use_seq_mem cache).
              seq_entries (use_seq_mem cache ! t) = [] \<and>
              ok \<and>
              seq_entries (use_seq_mem cache' ! t) = pre @ [n_entries cache] \<and>
              entries cache' (n_entries cache) = entry \<and>
              cache_map cache' = (cache_map cache)(hashs ! chunk_id \<mapsto> n_entries cache)"
        by blast
      with noprefix True show ?thesis by (simp only: if_True if_False simp_thms)
    next
      case False
      with noprefix have "select_target pre cache = None"
        by (rule select_target_none)
      with sl have "\<not> ok \<and> cache' = cache"
        by (auto simp: store_locked_def Let_def pre pre_chunk_indexs_not_last [OF new])
      with noprefix False show ?thesis by (simp only: if_True if_False simp_thms)
    qed
  qed
  have "pre \<noteq> [] \<longleftrightarrow> (\<exists>i\<le>chunk_id. cache_map cache (hashs ! i) \<noteq> None)"
    unfolding pre by (rule pre_entries_nonempty_iff)
  with st rule show ?thesis by blast
qed

theorem chunk_cache_store_target_rule_witness:
  "(1::nat) < length [''h'', ''x''] \<and>
   cache_map state_one_store ''x'' = None \<and>
   pre_entries [''h'', ''x''] 1 state_one_store = [0] \<and>
   chunk_cache_store [''h'', ''x''] 1 0 8 6 2 state_one_store = Some (True, state_two_stores) \<and>
   seq_entries (use_seq_mem state_one_store ! 1) = [0] \<and>
   seq_entries (use_seq_mem state_two_stores ! 1) = [0, 1] \<and>
   entries state_two_stores 1 =
     \<lparr>prompt_hash = ''x'', pos_begin = 3, pos_end = 6, last_token = 8, reference_count = 1\<rparr>"
proof -
  have len: "(1::nat) < length [''h'', ''x'']" by simp
  have cache: "state_one_store = (chunk_cache_maintain state_one_store)\<lparr>cache_wait_set :=
                  cache_wait_set (chunk_cache_maintain state_one_store) - {[''h'', ''x''] ! 1}\<rparr>"
    unfolding maintain_one by (simp add: state_one_store_def)
  have new: "cache_map state_one_store ([''h'', ''x''] ! 1) = None"
    by (simp add: state_one_store_def)
  have pre: "pre_entries [''h'', ''x''] 1 state_one_store = [0]"
    by (simp add: pre_entries_def pre_chunk_indexs_def state_one_store_def)
  have entry: "\<lparr>prompt_hash = ''x'', pos_begin = 3, pos_end = 6, last_token = 8, reference_count = 1\<rparr> =
     \<lparr>prompt_hash = [''h'', ''x''] ! 1,
      pos_begin = (if [0::nat] = [] then 0 else pos_end (entries state_one_store (last [0]))),
      pos_end = 6, last_token = 8, reference_count = 1\<rparr>"
    by (simp add: state_one_store_def)
  from chunk_cache_store_target_rule [OF len cache new pre [symmetric] entry, of 0 2]
  have "\<exists>ok cache'. chunk_cache_store [''h'', ''x''] 1 0 8 6 2 state_one_store = Some (ok, cache')"
    by blast
  moreover have "seq_entries (use_seq_mem state_one_store ! 1) = [0]"
    and "seq_entries (use_seq_mem state_two_stores ! 1) = [0, 1]"
    and "entries state_two_stores 1 =
     \<lparr>prompt_hash = ''x'', pos_begin = 3, pos_end = 6, last_token = 8, reference_count = 1\<rparr>"
    by (simp_all add: state_one_store_def state_two_stores_def)
  ultimately show ?thesis using len new pre second_store by simp
qed




section \<open>Properties of the per-request loop\<close>

lemma last_token_negative_never: "\<not> last_token_negative t"
  by (simp add: last_token_negative_def)

lemma submit_images_text:
  "\<forall>c\<in>set chunks. \<exists>ts. c = TextChunk ts \<Longrightarrow> submit_images env i chunks cache = Some cache"
  by (induction chunks arbitrary: i) auto

lemma decode_phase_no_cache:
  assumes "kv_cache st = None"
  shows "decode_phase env hashs cmpl_id i is_last st =
     Some (True, st\<lparr>task_queue := task_queue st @ [i],
                   chunk_status := (chunk_status st)[i := COMPLETED],
                   seq_last_token := fst (settled env i),
                   seq_n_past := snd (settled env i)\<rparr>)"
  using assms by (simp add: decode_phase_def Let_def last_token_negative_never)

lemma infer_loop_text_no_cache:
  assumes "kv_cache st = None"
    and "\<forall>c\<in>set rest. \<exists>ts. c = TextChunk ts"
    and "i + length rest \<le> length (chunk_status st)"
  shows "\<exists>st'. infer_loop env hashs cmpl_id i rest st = Some st' \<and>
           chunk_status st' = take i (chunk_status st) @ replicate (length rest) COMPLETED @
                                drop (i + length rest) (chunk_status st) \<and>
           task_queue st' = task_queue st @ [i..<i + length rest] \<and>
           kv_cache st' = None"
  using assms
proof (induction rest arbitrary: i st)
  case Nil
  then show ?case by simp
next
  case (Cons chunk rest)
  from Cons.prems(2) obtain ts where chunk: "chunk = TextChunk ts" by auto
  define st1 where "st1 = st\<lparr>task_queue := task_queue st @ [i],
                   chunk_status := (chunk_status st)[i := COMPLETED],
                   seq_last_token := fst (settled env i),
                   seq_n_past := snd (settled env i)\<rparr>"
  have step: "infer_loop env hashs cmpl_id i (chunk # rest) st =
              infer_loop env hashs cmpl_id (Suc i) rest st1"
    using Cons.prems(1)
    by (simp add: cache_phase_def encoder_phase_def chunk decode_phase_no_cache st1_def)
  have i: "i < length (chunk_status st)" using Cons.prems(3) by simp
  have "kv_cache st1 = None" using Cons.prems(1) by (simp add: st1_def)
  moreover have "\<forall>c\<in>set rest. \<exists>ts. c = TextChunk ts" using Cons.prems(2) by simp
  moreover have "Suc i + length rest \<le> length (chunk_status st1)"
    using Cons.prems(3) by (simp add: st1_def)
  ultimately obtain st' where st': "infer_loop env hashs cmpl_id (Suc i) rest st1 = Some st'"
    and status: "chunk_status st' = take (Suc i) (chunk_status st1) @ replicate (length rest) COMPLETED @
                                drop (Suc i + length rest) (chunk_status st1)"
    and queue: "task_queue st' = task_queue st1 @ [Suc i..<Suc i + length rest]"
    and kv: "kv_cache st' = None"
    using Cons.IH [of st1 "Suc i"] by blast
  have "take (Suc i) (chunk_status st1) = take i (chunk_status st) @ [COMPLETED]"
    using i by (simp add: st1_def take_Suc_conv_app_nth)
  moreover have "drop (Suc i + length rest) (chunk_status st1) =
                 drop (i + length (chunk # rest)) (chunk_status st)"
    by (simp add: st1_def)
  ultimately have "chunk_status st' = take i (chunk_status st) @
      replicate (length (chunk # rest)) COMPLETED @ drop (i + length (chunk # rest)) (chunk_status st)"
    using status by simp
  moreover have "[i..<i + length (chunk # rest)] = i # [Suc i..<Suc i + length rest]"
    by (simp add: upt_conv_Cons del: upt_Suc)
  then have "task_queue st' = task_queue st @ [i..<i + length (chunk # rest)]"
    using queue by (simp add: st1_def del: upt_Suc)
  ultimately show ?case using step st' kv by simp
qed

lemma decode_phase_never_fails:
  assumes "decode_phase env hashs cmpl_id i is_last st = Some (continue, st')"
  shows "continue \<and> chunk_status st' = (chunk_status st)[i := COMPLETED]"
  using assms
  by (auto simp: decode_phase_def Let_def last_token_negative_never
      split: option.splits if_splits)

text \<open>
  Claim C1 fails on the code. \<^verbatim>\<open>blocking_infer\<close> reads \<^verbatim>\<open>last_token\<close> into a \<^verbatim>\<open>size_t\<close>,
  so the test \<^verbatim>\<open>last_token < 0\<close> never holds (\<open>last_token_negative_never\<close>): whatever the
  decode has left in \<^verbatim>\<open>last_token\<close>, the failure sentinel \<open>-1\<close> included, the chunk is
  marked \<^verbatim>\<open>COMPLETED\<close>, the hash is not released by \<^verbatim>\<open>unprepared\<close>, the store is attempted
  for a chunk that is not the last, and the loop goes on (\<open>decode_phase_never_fails\<close>).
  For a request of text chunks without a chunk inference cache: \<^verbatim>\<open>blocking_infer\<close>
  returns with every chunk \<^verbatim>\<open>COMPLETED\<close> and every chunk pushed to the task queue, for
  every outcome of the decodes.
\<close>

theorem blocking_infer_completes_after_decode_failure:
  assumes "kv_cache st = None"
    and "\<forall>c\<in>set input_chunks. \<exists>ts. c = TextChunk ts"
    and "length (chunk_status st) = length input_chunks"
  shows "\<exists>st'. blocking_infer env input_chunks chat_cmpl_id st = Some st' \<and>
           chunk_status st' = replicate (length input_chunks) COMPLETED \<and>
           task_queue st' = task_queue st @ [0..<length input_chunks]"
proof -
  have "\<exists>st'. infer_loop env (chunk_hashs input_chunks) chat_cmpl_id 0 input_chunks st = Some st' \<and>
           chunk_status st' = take 0 (chunk_status st) @ replicate (length input_chunks) COMPLETED @
                                drop (0 + length input_chunks) (chunk_status st) \<and>
           task_queue st' = task_queue st @ [0..<0 + length input_chunks] \<and>
           kv_cache st' = None"
    using assms by (intro infer_loop_text_no_cache) simp_all
  with assms(2,3) show ?thesis
    by (auto simp: blocking_infer_def submit_images_text)
qed

theorem blocking_infer_completes_after_decode_failure_witness:
  "kv_cache request_state = None \<and>
   length (chunk_status request_state) = length [TextChunk [1], TextChunk [2]] \<and>
   fst (settled failing_decode_env 0) = - 1 \<and>
   spec_last_token_negative (fst (settled failing_decode_env 0)) \<and>
   (\<exists>st'. blocking_infer failing_decode_env [TextChunk [1], TextChunk [2]] 0 request_state = Some st' \<and>
      chunk_status st' = [COMPLETED, COMPLETED] \<and> task_queue st' = [0, 1])"
proof -
  have kv: "kv_cache request_state = None"
    and len: "length (chunk_status request_state) = length [TextChunk [1], TextChunk [2]]"
    and q: "task_queue request_state = []"
    by (simp_all add: request_state_def)
  have all_text: "\<forall>c\<in>set [TextChunk [1], TextChunk [2]]. \<exists>ts. c = TextChunk ts" by simp
  have neg: "fst (settled failing_decode_env 0) = - 1"
    "spec_last_token_negative (fst (settled failing_decode_env 0))"
    by (simp_all add: failing_decode_env_def spec_last_token_negative_def)
  have upt: "[0..<length [TextChunk [1], TextChunk [2]]] = [0, 1]"
    by (simp add: upt_rec)
  from blocking_infer_completes_after_decode_failure [OF kv all_text len, of failing_decode_env 0]
  have "\<exists>st'. blocking_infer failing_decode_env [TextChunk [1], TextChunk [2]] 0 request_state = Some st' \<and>
      chunk_status st' = [COMPLETED, COMPLETED] \<and> task_queue st' = [0, 1]"
    unfolding q upt by (simp add: numeral_2_eq_2)
  with kv len neg show ?thesis by blast
qed

end
